theory Spec2Isabelle
  imports Main "HOL-Library.AList"
begin

text \<open>
  A model of \<^verbatim>\<open>VpaidCallbackAd.js\<close>, a VPAID ad unit for testing a video player: the
  unit keeps a set of attributes and a registry of host callbacks, and its lifecycle
  methods update the attributes and call the registered callbacks. Each method of the
  source is a function from the state before the call to the way the call ends and
  the state after it. The state holds the fields of the unit and what the unit touches
  of the page around it.
\<close>

section \<open>JavaScript values\<close>

text \<open>
  The values the host passes to the unit and the unit stores. Numbers are the integral
  ones, which JavaScript prints in decimal (below 10^21 in magnitude); a function
  carries an identity and its source text (what \<^verbatim>\<open>"" + f\<close> yields); \<open>VObj\<close> is a
  plain host object with the default string form. The unit does no arithmetic on what
  it is given: it stores the values, prints them into its log line and hands them back.
\<close>

datatype jsval =
    VUndefined
  | VNull
  | VBool bool
  | VNum int
  | VStr string
  | VFun nat string
  | VObj nat

text \<open>The only exception the modelled code raises: calling or dereferencing a non-value.\<close>

datatype error = TypeError

text \<open>
  How a call ends: it returns a value (\<open>VUndefined\<close> for a function without
  \<^verbatim>\<open>return\<close>) or throws. The state reached is kept beside it in both cases, since
  a JavaScript exception does not undo the assignments made before it.
\<close>

datatype result = Returned jsval | Thrown error

text \<open>The decimal digits of a natural number.\<close>

fun digits :: "nat \<Rightarrow> string" where
  "digits n =
     (if n < 10 then [''0123456789'' ! n]
      else digits (n div 10) @ [''0123456789'' ! (n mod 10)])"

declare digits.simps [simp del]

text \<open>String conversion, as \<^verbatim>\<open>"text" + v\<close> performs it.\<close>

fun toString :: "jsval \<Rightarrow> string" where
  "toString VUndefined = ''undefined''"
| "toString VNull = ''null''"
| "toString (VBool b) = (if b then ''true'' else ''false'')"
| "toString (VNum n) = (if n < 0 then ''-'' @ digits (nat (- n)) else digits (nat n))"
| "toString (VStr s) = s"
| "toString (VFun f src) = src"
| "toString (VObj a) = ''[object Object]''"

text \<open>Truthiness, as \<^verbatim>\<open>if (v)\<close> tests it.\<close>

fun truthy :: "jsval \<Rightarrow> bool" where
  "truthy VUndefined = False"
| "truthy VNull = False"
| "truthy (VBool b) = b"
| "truthy (VNum n) = (n \<noteq> 0)"
| "truthy (VStr s) = (s \<noteq> [])"
| "truthy (VFun f src) = True"
| "truthy (VObj a) = True"

section \<open>The page\<close>

text \<open>
  The methods of the unit that it registers as DOM listeners
  (\<^verbatim>\<open>this.eventSelected_.bind(this)\<close> and so on).
\<close>

datatype listener = EventSelected | TriggerEvent | LogPercentVisible

text \<open>
  An element, with the properties the unit reads or writes. \<open>textContent\<close> holds the
  value last assigned to it.
\<close>

record element =
  tagName :: string
  elem_value :: string
  textContent :: jsval
  innerHTML :: string
  listeners :: "(string \<times> listener) list"

text \<open>A value that may be a DOM node: what \<^verbatim>\<open>environmentVars.slot\<close> holds.\<close>

datatype ref = Prim jsval | Node element

text \<open>
  \<^verbatim>\<open>environmentVars\<close>: \<open>Nullish\<close> is \<^verbatim>\<open>null\<close> or \<^verbatim>\<open>undefined\<close>, whose
  properties cannot be read; anything else has a \<^verbatim>\<open>slot\<close> and a \<^verbatim>\<open>videoSlot\<close>
  (\<open>Prim VUndefined\<close> when the property is missing).
\<close>

datatype environmentVars = Nullish | Vars ref ref

text \<open>
  \<^verbatim>\<open>window.parent\<close>: the window itself on a top-level page, the embedding page of a
  friendly iframe with its elements by id, or a cross-origin window, every access to
  which throws.
\<close>

datatype parent_window =
    Self
  | Friendly "string \<rightharpoonup> element"
  | CrossOrigin

text \<open>Where \<^verbatim>\<open>getElement_\<close> found an element, and under which id.\<close>

datatype place = InDocument | InParent

type_synonym eref = "place \<times> string"

text \<open>
  A registry entry: \<^verbatim>\<open>aCallback.bind(aContext)\<close>, or the \<^verbatim>\<open>null\<close> that
  \<^verbatim>\<open>unsubscribe\<close> stores.
\<close>

datatype callback = Bound jsval jsval | NullEntry

text \<open>One invocation of a host function: the function, its \<^verbatim>\<open>this\<close>, its arguments.\<close>

record invocation =
  callee :: jsval
  thisArg :: jsval
  arguments :: "jsval list"

text \<open>
  What surrounds the unit: the elements of its document by id, the parent window, the
  tag names of the children of \<^verbatim>\<open>document.body\<close> (\<open>None\<close> when the document has no
  body), the listeners added to \<^verbatim>\<open>window.parent\<close>, and the invocations of host
  functions so far. Elements are kept by value. The slot is kept in the unit and is
  not among the elements found by id: \<^verbatim>\<open>renderSlot_\<close> replaces its content by
  \<^verbatim>\<open>HTML_TEMPLATE\<close>, which declares no id, so no lookup can end inside it.
\<close>

record environment =
  document :: "string \<rightharpoonup> element"
  parent :: parent_window
  body :: "string list option"
  parent_listeners :: "(string \<times> listener) list"
  calls :: "invocation list"

text \<open>
  The unit in its environment. The private members are named without the trailing
  underscore of the source (\<^verbatim>\<open>slot_\<close> is \<open>slot\<close>, \<^verbatim>\<open>getElement_\<close> is
  \<open>getElement\<close>), which Isabelle keeps for its own names. \<open>attributes\<close> is an
  association list: the order of its keys is the order
  \<^verbatim>\<open>for (key in this.attributes_)\<close> visits them in. \<open>eventCallbacks\<close> holds the
  properties the registry has of its own; the names the public methods look up are
  not properties of \<^verbatim>\<open>Object.prototype\<close>, so these decide every \<^verbatim>\<open>in\<close> test.
\<close>

record VpaidAd = environment +
  slot :: ref
  videoSlot :: ref
  eventCallbacks :: "string \<rightharpoonup> callback"
  attributes :: "(string \<times> jsval) list"

section \<open>The unit\<close>

definition new_VpaidAd :: "environment \<Rightarrow> VpaidAd" where
  "new_VpaidAd env =
     \<lparr>document = document env, parent = parent env, body = body env,
      parent_listeners = parent_listeners env, calls = calls env,
      slot = Prim VNull,
      videoSlot = Prim VNull,
      eventCallbacks = Map.empty,
      attributes =
        [(''companions'', VStr ''''),
         (''desiredBitrate'', VNum 256),
         (''duration'', VNum 30),
         (''expanded'', VBool False),
         (''height'', VNum 0),
         (''icons'', VStr ''''),
         (''linear'', VBool True),
         (''remainingTime'', VNum 10),
         (''skippableState'', VBool False),
         (''viewMode'', VStr ''normal''),
         (''width'', VNum 0),
         (''volume'', VNum 50)]\<rparr>"

definition HTML_TEMPLATE :: string where
  "HTML_TEMPLATE = ''<div>Ravi Kant</div>''"

definition getVPAIDAd :: "environment \<Rightarrow> VpaidAd" where
  "getVPAIDAd env = new_VpaidAd env"

text \<open>\<^verbatim>\<open>this.attributes_[key]\<close> and \<^verbatim>\<open>this.attributes_[key] = v\<close>.\<close>

definition get_attribute :: "string \<Rightarrow> VpaidAd \<Rightarrow> jsval" where
  "get_attribute key s =
     (case map_of (attributes s) key of None \<Rightarrow> VUndefined | Some v \<Rightarrow> v)"

definition set_attribute :: "string \<Rightarrow> jsval \<Rightarrow> VpaidAd \<Rightarrow> VpaidAd" where
  "set_attribute key v s = s\<lparr>attributes := AList.update key v (attributes s)\<rparr>"

text \<open>\<^verbatim>\<open>name in this.eventCallbacks_\<close>.\<close>

definition has_eventCallback :: "string \<Rightarrow> VpaidAd \<Rightarrow> bool" where
  "has_eventCallback name s = (eventCallbacks s name \<noteq> None)"

text \<open>
  \<^verbatim>\<open>this.eventCallbacks_[name](args)\<close>: a bound host function is invoked, which the
  trace records; \<^verbatim>\<open>null\<close> and \<^verbatim>\<open>undefined\<close> are not functions. A host function
  is taken to return without calling back into the unit.
\<close>

definition call_eventCallback :: "string \<Rightarrow> jsval list \<Rightarrow> VpaidAd \<Rightarrow> result \<times> VpaidAd" where
  "call_eventCallback name args s =
     (case eventCallbacks s name of
        None \<Rightarrow> (Thrown TypeError, s)
      | Some NullEntry \<Rightarrow> (Thrown TypeError, s)
      | Some (Bound f this) \<Rightarrow>
          (Returned VUndefined,
           s\<lparr>calls := calls s @ [\<lparr>callee = f, thisArg = this, arguments = args\<rparr>]\<rparr>))"

text \<open>Statement sequencing: what follows a call runs only if the call returned.\<close>

definition seq :: "result \<times> VpaidAd \<Rightarrow> (VpaidAd \<Rightarrow> result \<times> VpaidAd) \<Rightarrow> result \<times> VpaidAd" where
  "seq r k = (case r of (Thrown e, s) \<Rightarrow> (Thrown e, s) | (Returned v, s) \<Rightarrow> k s)"

definition getElement :: "string \<Rightarrow> VpaidAd \<Rightarrow> eref option" where
  "getElement key s =
     (case document s key of
        Some element \<Rightarrow> Some (InDocument, key)
      | None \<Rightarrow>
          (case parent s of
             CrossOrigin \<Rightarrow> None
           | Self \<Rightarrow> None
           | Friendly d \<Rightarrow>
               (case d key of Some element \<Rightarrow> Some (InParent, key) | None \<Rightarrow> None)))"

text \<open>An assignment to a property of the element a reference denotes.\<close>

definition update_element :: "eref \<Rightarrow> (element \<Rightarrow> element) \<Rightarrow> VpaidAd \<Rightarrow> VpaidAd" where
  "update_element r f s =
     (case r of
        (InDocument, key) \<Rightarrow>
          (case document s key of
             None \<Rightarrow> s
           | Some e \<Rightarrow> s\<lparr>document := (document s)(key \<mapsto> f e)\<rparr>)
      | (InParent, key) \<Rightarrow>
          (case parent s of
             Friendly d \<Rightarrow>
               (case d key of
                  None \<Rightarrow> s
                | Some e \<Rightarrow> s\<lparr>parent := Friendly (d(key \<mapsto> f e))\<rparr>)
           | Self \<Rightarrow> s
           | CrossOrigin \<Rightarrow> s))"

definition log :: "string \<Rightarrow> VpaidAd \<Rightarrow> VpaidAd" where
  "log message s =
     (case getElement ''lastVpaidEvent'' s of
        None \<Rightarrow> s
      | Some logTextArea \<Rightarrow> update_element logTextArea (\<lambda>e. e\<lparr>elem_value := message\<rparr>) s)"

text \<open>
  \<^verbatim>\<open>document.createElement(tag)\<close>: a fresh element with nothing in it. The tag is
  given in the upper case in which \<^verbatim>\<open>tagName\<close> reports it.
\<close>

definition createElement :: "string \<Rightarrow> element" where
  "createElement tag =
     \<lparr>tagName = tag, elem_value = [], textContent = VStr [], innerHTML = [],
      listeners = []\<rparr>"

definition renderSlot :: "VpaidAd \<Rightarrow> VpaidAd" where
  "renderSlot s =
     (let slotExists =
            (case slot s of Prim v \<Rightarrow> False | Node e \<Rightarrow> tagName e = ''DIV'');
          s1 =
            (if \<not> slotExists
             then s\<lparr>slot := Node (createElement ''DIV''),
                    body := Some ((case body s of None \<Rightarrow> [] | Some children \<Rightarrow> children)
                                  @ [''DIV''])\<rparr>
             else s)
      in case slot s1 of
           Prim v \<Rightarrow> s1
         | Node e \<Rightarrow> s1\<lparr>slot := Node (e\<lparr>innerHTML := HTML_TEMPLATE\<rparr>)\<rparr>)"

text \<open>\<^verbatim>\<open>element.addEventListener(type, method.bind(this))\<close>, on what \<^verbatim>\<open>getElement_\<close> gave.\<close>

definition addEventListener :: "eref option \<Rightarrow> string \<Rightarrow> listener \<Rightarrow> VpaidAd \<Rightarrow> result \<times> VpaidAd" where
  "addEventListener target type l s =
     (case target of
        None \<Rightarrow> (Thrown TypeError, s)
      | Some r \<Rightarrow>
          (Returned VUndefined,
           update_element r (\<lambda>e. e\<lparr>listeners := listeners e @ [(type, l)]\<rparr>) s))"

definition addButtonListeners :: "VpaidAd \<Rightarrow> result \<times> VpaidAd" where
  "addButtonListeners s =
     (let eventSelect = getElement ''eventSelect'' s in
      seq (addEventListener eventSelect ''change'' EventSelected s) (\<lambda>s1.
        let triggerEvent = getElement ''triggerEvent'' s1 in
        addEventListener triggerEvent ''click'' TriggerEvent s1))"

text \<open>The loop of \<^verbatim>\<open>fillProperties_\<close> over the keys still to visit.\<close>

fun fillProperties_loop :: "string list \<Rightarrow> VpaidAd \<Rightarrow> result \<times> VpaidAd" where
  "fillProperties_loop [] s = (Returned VUndefined, s)"
| "fillProperties_loop (key # keys) s =
     (case getElement key s of
        None \<Rightarrow> (Thrown TypeError, s)
      | Some span \<Rightarrow>
          fillProperties_loop keys
            (update_element span (\<lambda>e. e\<lparr>textContent := get_attribute key s\<rparr>) s))"

definition fillProperties :: "VpaidAd \<Rightarrow> result \<times> VpaidAd" where
  "fillProperties s = fillProperties_loop (map fst (attributes s)) s"

definition setupScrollListener :: "VpaidAd \<Rightarrow> VpaidAd" where
  "setupScrollListener s =
     (case parent s of
        CrossOrigin \<Rightarrow> s
      | Self \<Rightarrow> s\<lparr>parent_listeners := parent_listeners s @ [(''scroll'', LogPercentVisible)]\<rparr>
      | Friendly d \<Rightarrow>
          s\<lparr>parent_listeners := parent_listeners s @ [(''scroll'', LogPercentVisible)]\<rparr>)"

definition initAd ::
  "jsval \<Rightarrow> jsval \<Rightarrow> jsval \<Rightarrow> jsval \<Rightarrow> jsval \<Rightarrow> environmentVars \<Rightarrow> VpaidAd \<Rightarrow> result \<times> VpaidAd" where
  "initAd width height viewMode desiredBitrate creativeData environmentVars s =
     (case environmentVars of
        Nullish \<Rightarrow> (Thrown TypeError, s)
      | Vars slot' videoSlot' \<Rightarrow>
          (let s1 = s\<lparr>slot := slot', videoSlot := videoSlot'\<rparr>;
               s2 = set_attribute ''width'' width s1;
               s3 = set_attribute ''height'' height s2;
               s4 = set_attribute ''viewMode'' viewMode s3;
               s5 = set_attribute ''desiredBitrate'' desiredBitrate s4;
               s6 = log (''initAd '' @ toString width @ ''x'' @ toString height @ '' ''
                         @ toString viewMode @ '' '' @ toString desiredBitrate) s5;
               s7 = renderSlot s6
           in seq (addButtonListeners s7) (\<lambda>s8.
              seq (fillProperties s8) (\<lambda>s9.
              seq (call_eventCallback ''AdLoaded'' [] s9) (\<lambda>s10.
              (Returned VUndefined, setupScrollListener s10))))))"

definition handshakeVersion :: "jsval \<Rightarrow> VpaidAd \<Rightarrow> result \<times> VpaidAd" where
  "handshakeVersion version s = (Returned (VStr ''2.0''), s)"

definition startAd :: "VpaidAd \<Rightarrow> result \<times> VpaidAd" where
  "startAd s =
     (let s1 = log ''Starting ad'' s in
      if has_eventCallback ''AdStart'' s1
      then seq (call_eventCallback ''AdStarted'' [] s1) (\<lambda>s2. (Returned VUndefined, s2))
      else (Returned VUndefined, s1))"

definition stopAd :: "VpaidAd \<Rightarrow> result \<times> VpaidAd" where
  "stopAd s =
     (let s1 = log ''Stopping ad'' s in
      if has_eventCallback ''AdStop'' s1
      then seq (call_eventCallback ''AdStopped'' [] s1) (\<lambda>s2. (Returned VUndefined, s2))
      else (Returned VUndefined, s1))"

definition setAdVolume :: "jsval \<Rightarrow> VpaidAd \<Rightarrow> result \<times> VpaidAd" where
  "setAdVolume v s =
     (let s1 = set_attribute ''volume'' v s;
          s2 = log (''setAdVolume '' @ toString v) s1
      in if has_eventCallback ''AdVolumeChange'' s2
         then seq (call_eventCallback ''AdVolumeChange'' [] s2) (\<lambda>s3. (Returned VUndefined, s3))
         else (Returned VUndefined, s2))"

definition getAdVolume :: "VpaidAd \<Rightarrow> result \<times> VpaidAd" where
  "getAdVolume s =
     (let s1 = log ''getAdVolume'' s in (Returned (get_attribute ''volume'' s1), s1))"

definition resizeAd :: "jsval \<Rightarrow> jsval \<Rightarrow> jsval \<Rightarrow> VpaidAd \<Rightarrow> result \<times> VpaidAd" where
  "resizeAd width height viewMode s =
     (let s1 = log (''resizeAd '' @ toString width @ ''x'' @ toString height @ '' ''
                    @ toString viewMode) s;
          s2 = set_attribute ''width'' width s1;
          s3 = set_attribute ''height'' height s2;
          s4 = set_attribute ''viewMode'' viewMode s3
      in if has_eventCallback ''AdSizeChange'' s4
         then seq (call_eventCallback ''AdSizeChange'' [] s4) (\<lambda>s5. (Returned VUndefined, s5))
         else (Returned VUndefined, s4))"

definition pauseAd :: "VpaidAd \<Rightarrow> result \<times> VpaidAd" where
  "pauseAd s =
     (let s1 = log ''pauseAd'' s in
      if has_eventCallback ''AdPaused'' s1
      then seq (call_eventCallback ''AdPaused'' [] s1) (\<lambda>s2. (Returned VUndefined, s2))
      else (Returned VUndefined, s1))"

definition resumeAd :: "VpaidAd \<Rightarrow> result \<times> VpaidAd" where
  "resumeAd s =
     (let s1 = log ''resumeAd'' s in
      if has_eventCallback ''AdResumed'' s1
      then seq (call_eventCallback ''AdResumed'' [] s1) (\<lambda>s2. (Returned VUndefined, s2))
      else (Returned VUndefined, s1))"

definition expandAd :: "VpaidAd \<Rightarrow> result \<times> VpaidAd" where
  "expandAd s =
     (let s1 = log ''expandAd'' s;
          s2 = set_attribute ''expanded'' (VBool True) s1
      in if has_eventCallback ''AdExpanded'' s2
         then seq (call_eventCallback ''AdExpanded'' [] s2) (\<lambda>s3. (Returned VUndefined, s3))
         else (Returned VUndefined, s2))"

definition getAdExpanded :: "VpaidAd \<Rightarrow> result \<times> VpaidAd" where
  "getAdExpanded s =
     (let s1 = log ''getAdExpanded'' s in (Returned (get_attribute ''expanded'' s1), s1))"

definition getAdSkippableState :: "VpaidAd \<Rightarrow> result \<times> VpaidAd" where
  "getAdSkippableState s =
     (let s1 = log ''getAdSkippableState'' s
      in (Returned (get_attribute ''skippableState'' s1), s1))"

definition collapseAd :: "VpaidAd \<Rightarrow> result \<times> VpaidAd" where
  "collapseAd s =
     (let s1 = log ''collapseAd'' s
      in (Returned VUndefined, set_attribute ''expanded'' (VBool False) s1))"

definition skipAd :: "VpaidAd \<Rightarrow> result \<times> VpaidAd" where
  "skipAd s =
     (let s1 = log ''skipAd'' s;
          skippableState = get_attribute ''skippableState'' s1
      in if truthy skippableState
         then (if has_eventCallback ''AdSkipped'' s1
               then seq (call_eventCallback ''AdSkipped'' [] s1) (\<lambda>s2. (Returned VUndefined, s2))
               else (Returned VUndefined, log ''Error: Invalid ad skip request.'' s1))
         else (Returned VUndefined, s1))"

text \<open>
  \<^verbatim>\<open>aCallback.bind(aContext)\<close> needs \<^verbatim>\<open>aCallback\<close> to be a function: on any other
  value there is no \<^verbatim>\<open>bind\<close> to call.
\<close>

definition subscribe :: "jsval \<Rightarrow> string \<Rightarrow> jsval \<Rightarrow> VpaidAd \<Rightarrow> result \<times> VpaidAd" where
  "subscribe aCallback eventName aContext s =
     (let s1 = log (''Subscribe '' @ toString aCallback) s in
      case aCallback of
        VFun f src \<Rightarrow>
          (Returned VUndefined,
           s1\<lparr>eventCallbacks := (eventCallbacks s1)(eventName \<mapsto> Bound aCallback aContext)\<rparr>)
      | VUndefined \<Rightarrow> (Thrown TypeError, s1)
      | VNull \<Rightarrow> (Thrown TypeError, s1)
      | VBool b \<Rightarrow> (Thrown TypeError, s1)
      | VNum n \<Rightarrow> (Thrown TypeError, s1)
      | VStr str \<Rightarrow> (Thrown TypeError, s1)
      | VObj a \<Rightarrow> (Thrown TypeError, s1))"

definition unsubscribe :: "string \<Rightarrow> VpaidAd \<Rightarrow> result \<times> VpaidAd" where
  "unsubscribe eventName s =
     (let s1 = log (''unsubscribe '' @ eventName) s
      in (Returned VUndefined, s1\<lparr>eventCallbacks := (eventCallbacks s1)(eventName \<mapsto> NullEntry)\<rparr>))"

definition getAdWidth :: "VpaidAd \<Rightarrow> result \<times> VpaidAd" where
  "getAdWidth s = (Returned (get_attribute ''width'' s), s)"

definition getAdHeight :: "VpaidAd \<Rightarrow> result \<times> VpaidAd" where
  "getAdHeight s = (Returned (get_attribute ''height'' s), s)"

definition getAdRemainingTime :: "VpaidAd \<Rightarrow> result \<times> VpaidAd" where
  "getAdRemainingTime s = (Returned (get_attribute ''remainingTime'' s), s)"

definition getAdDuration :: "VpaidAd \<Rightarrow> result \<times> VpaidAd" where
  "getAdDuration s = (Returned (get_attribute ''duration'' s), s)"

definition getAdCompanions :: "VpaidAd \<Rightarrow> result \<times> VpaidAd" where
  "getAdCompanions s = (Returned (get_attribute ''companions'' s), s)"

definition getAdIcons :: "VpaidAd \<Rightarrow> result \<times> VpaidAd" where
  "getAdIcons s = (Returned (get_attribute ''icons'' s), s)"

definition getAdLinear :: "VpaidAd \<Rightarrow> result \<times> VpaidAd" where
  "getAdLinear s = (Returned (get_attribute ''linear'' s), s)"

section \<open>Sequences of calls\<close>

text \<open>
  The calls the host can make on the unit: its public methods. The listeners that
  \<^verbatim>\<open>initAd\<close> registers on the page (\<^verbatim>\<open>triggerEvent_\<close>, \<^verbatim>\<open>eventSelected_\<close>,
  \<^verbatim>\<open>logPercentVisible_\<close>) run when the operator clicks or scrolls, not when the host
  calls, and are recorded here only as registered.
\<close>

datatype operation =
    InitAd jsval jsval jsval jsval jsval environmentVars
  | HandshakeVersion jsval
  | StartAd
  | StopAd
  | SetAdVolume jsval
  | GetAdVolume
  | ResizeAd jsval jsval jsval
  | PauseAd
  | ResumeAd
  | ExpandAd
  | GetAdExpanded
  | GetAdSkippableState
  | CollapseAd
  | SkipAd
  | Subscribe jsval string jsval
  | Unsubscribe string
  | GetAdWidth
  | GetAdHeight
  | GetAdRemainingTime
  | GetAdDuration
  | GetAdCompanions
  | GetAdIcons
  | GetAdLinear
  | Log string

fun step :: "operation \<Rightarrow> VpaidAd \<Rightarrow> result \<times> VpaidAd" where
  "step (InitAd w h m b c e) s = initAd w h m b c e s"
| "step (HandshakeVersion v) s = handshakeVersion v s"
| "step StartAd s = startAd s"
| "step StopAd s = stopAd s"
| "step (SetAdVolume v) s = setAdVolume v s"
| "step GetAdVolume s = getAdVolume s"
| "step (ResizeAd w h m) s = resizeAd w h m s"
| "step PauseAd s = pauseAd s"
| "step ResumeAd s = resumeAd s"
| "step ExpandAd s = expandAd s"
| "step GetAdExpanded s = getAdExpanded s"
| "step GetAdSkippableState s = getAdSkippableState s"
| "step CollapseAd s = collapseAd s"
| "step SkipAd s = skipAd s"
| "step (Subscribe f n c) s = subscribe f n c s"
| "step (Unsubscribe n) s = unsubscribe n s"
| "step GetAdWidth s = getAdWidth s"
| "step GetAdHeight s = getAdHeight s"
| "step GetAdRemainingTime s = getAdRemainingTime s"
| "step GetAdDuration s = getAdDuration s"
| "step GetAdCompanions s = getAdCompanions s"
| "step GetAdIcons s = getAdIcons s"
| "step GetAdLinear s = getAdLinear s"
| "step (Log message) s = (Returned VUndefined, log message s)"

text \<open>
  The state after a sequence of calls. A call that throws leaves the unit in the state
  it had reached, and the host, having caught the exception, goes on from there.
\<close>

fun run :: "operation list \<Rightarrow> VpaidAd \<Rightarrow> VpaidAd" where
  "run [] s = s"
| "run (c # cs) s = run cs (snd (step c s))"

text \<open>How each call of a sequence ended.\<close>

fun results :: "operation list \<Rightarrow> VpaidAd \<Rightarrow> result list" where
  "results [] s = []"
| "results (c # cs) s = fst (step c s) # results cs (snd (step c s))"

section \<open>Reading the page\<close>

text \<open>The element a reference denotes, and the text the log sink shows, if there is one.\<close>

definition element_at :: "eref \<Rightarrow> VpaidAd \<Rightarrow> element option" where
  "element_at r s =
     (case r of
        (InDocument, key) \<Rightarrow> document s key
      | (InParent, key) \<Rightarrow>
          (case parent s of Friendly d \<Rightarrow> d key | Self \<Rightarrow> None | CrossOrigin \<Rightarrow> None))"

definition lastVpaidEvent :: "VpaidAd \<Rightarrow> string option" where
  "lastVpaidEvent s =
     (case getElement ''lastVpaidEvent'' s of
        None \<Rightarrow> None
      | Some logTextArea \<Rightarrow> map_option elem_value (element_at logTextArea s))"

section \<open>Pages and handlers of the examples\<close>

text \<open>A top-level page with an empty body: no element has an id.\<close>

definition blank_page :: environment where
  "blank_page =
     \<lparr>document = Map.empty, parent = Self, body = Some [], parent_listeners = [],
      calls = []\<rparr>"

text \<open>
  A top-level page that holds, in one div of its body, every element the unit looks
  up by id while \<^verbatim>\<open>initAd\<close> runs: the log sink, the two controls and one element
  per attribute.
\<close>

definition control_page :: environment where
  "control_page =
     \<lparr>document = map_of
        [(''lastVpaidEvent'', createElement ''TEXTAREA''),
         (''eventSelect'', createElement ''SELECT''),
         (''triggerEvent'', createElement ''BUTTON''),
         (''companions'', createElement ''SPAN''),
         (''desiredBitrate'', createElement ''SPAN''),
         (''duration'', createElement ''SPAN''),
         (''expanded'', createElement ''SPAN''),
         (''height'', createElement ''SPAN''),
         (''icons'', createElement ''SPAN''),
         (''linear'', createElement ''SPAN''),
         (''remainingTime'', createElement ''SPAN''),
         (''skippableState'', createElement ''SPAN''),
         (''viewMode'', createElement ''SPAN''),
         (''width'', createElement ''SPAN''),
         (''volume'', createElement ''SPAN'')],
      parent = Self, body = Some [''DIV''], parent_listeners = [], calls = []\<rparr>"

text \<open>A host function that the examples subscribe, and the object they bind it to.\<close>

definition recorder :: jsval where
  "recorder = VFun 0 ''function () { count++; }''"

definition player :: jsval where
  "player = VObj 0"

text \<open>The empty object that the examples pass as \<^verbatim>\<open>creativeData\<close>.\<close>

definition no_creativeData :: jsval where
  "no_creativeData = VObj 1"

section \<open>What the helpers leave alone\<close>

lemma update_element_frame [simp]:
  "attributes (update_element r f s) = attributes s"
  "eventCallbacks (update_element r f s) = eventCallbacks s"
  "calls (update_element r f s) = calls s"
  "slot (update_element r f s) = slot s"
  "videoSlot (update_element r f s) = videoSlot s"
  "body (update_element r f s) = body s"
  "parent_listeners (update_element r f s) = parent_listeners s"
  by (auto simp: update_element_def split: prod.splits place.splits option.splits parent_window.splits)

lemma getElement_cong:
  "document s' = document s \<Longrightarrow> parent s' = parent s \<Longrightarrow> getElement key s' = getElement key s"
  by (simp add: getElement_def split: option.splits)

lemma getElement_update_element [simp]:
  "getElement key (update_element r f s) = getElement key s"
  by (auto simp: getElement_def update_element_def
      split: prod.splits place.splits option.splits parent_window.splits)

lemma log_frame [simp]:
  "attributes (log m s) = attributes s"
  "eventCallbacks (log m s) = eventCallbacks s"
  "calls (log m s) = calls s"
  "slot (log m s) = slot s"
  "videoSlot (log m s) = videoSlot s"
  "body (log m s) = body s"
  "parent_listeners (log m s) = parent_listeners s"
  "getElement key (log m s) = getElement key s"
  by (simp_all add: log_def split: option.splits)

lemma set_attribute_frame [simp]:
  "attributes (set_attribute k v s) = AList.update k v (attributes s)"
  "eventCallbacks (set_attribute k v s) = eventCallbacks s"
  "calls (set_attribute k v s) = calls s"
  "slot (set_attribute k v s) = slot s"
  "videoSlot (set_attribute k v s) = videoSlot s"
  "document (set_attribute k v s) = document s"
  "parent (set_attribute k v s) = parent s"
  "body (set_attribute k v s) = body s"
  "parent_listeners (set_attribute k v s) = parent_listeners s"
  by (simp_all add: set_attribute_def)

lemma getElement_set_attribute [simp]:
  "getElement key (set_attribute k v s) = getElement key s"
  by (rule getElement_cong) simp_all

lemma get_attribute_simps [simp]:
  "get_attribute k (log m s) = get_attribute k s"
  "get_attribute k (update_element r f s) = get_attribute k s"
  "get_attribute k (set_attribute k' v s) = (if k = k' then v else get_attribute k s)"
  by (simp_all add: get_attribute_def update_conv')

lemma has_eventCallback_simps [simp]:
  "has_eventCallback n (log m s) = has_eventCallback n s"
  "has_eventCallback n (update_element r f s) = has_eventCallback n s"
  "has_eventCallback n (set_attribute k v s) = has_eventCallback n s"
  by (simp_all add: has_eventCallback_def)

lemma call_eventCallback_frame [simp]:
  "attributes (snd (call_eventCallback n args s)) = attributes s"
  "eventCallbacks (snd (call_eventCallback n args s)) = eventCallbacks s"
  "slot (snd (call_eventCallback n args s)) = slot s"
  "document (snd (call_eventCallback n args s)) = document s"
  "parent (snd (call_eventCallback n args s)) = parent s"
  by (simp_all add: call_eventCallback_def split: option.splits callback.splits)

lemma call_eventCallback_Bound:
  "eventCallbacks s n = Some (Bound f this) \<Longrightarrow>
   call_eventCallback n args s =
     (Returned VUndefined, s\<lparr>calls := calls s @ [\<lparr>callee = f, thisArg = this, arguments = args\<rparr>]\<rparr>)"
  by (simp add: call_eventCallback_def)

lemma call_eventCallback_calls:
  "calls (snd (call_eventCallback n args s)) =
     (case eventCallbacks s n of
        Some (Bound f this) \<Rightarrow> calls s @ [\<lparr>callee = f, thisArg = this, arguments = args\<rparr>]
      | Some NullEntry \<Rightarrow> calls s
      | None \<Rightarrow> calls s)"
  by (simp add: call_eventCallback_def split: option.splits callback.splits)

lemma renderSlot_frame [simp]:
  "attributes (renderSlot s) = attributes s"
  "eventCallbacks (renderSlot s) = eventCallbacks s"
  "calls (renderSlot s) = calls s"
  "document (renderSlot s) = document s"
  "parent (renderSlot s) = parent s"
  "parent_listeners (renderSlot s) = parent_listeners s"
  by (simp_all add: renderSlot_def Let_def split: ref.splits)

lemma getElement_renderSlot [simp]:
  "getElement key (renderSlot s) = getElement key s"
  by (rule getElement_cong) simp_all

lemma setupScrollListener_frame [simp]:
  "attributes (setupScrollListener s) = attributes s"
  "eventCallbacks (setupScrollListener s) = eventCallbacks s"
  "calls (setupScrollListener s) = calls s"
  "document (setupScrollListener s) = document s"
  "parent (setupScrollListener s) = parent s"
  "slot (setupScrollListener s) = slot s"
  by (simp_all add: setupScrollListener_def split: parent_window.splits)

lemma addEventListener_frame [simp]:
  "attributes (snd (addEventListener t ty l s)) = attributes s"
  "eventCallbacks (snd (addEventListener t ty l s)) = eventCallbacks s"
  "calls (snd (addEventListener t ty l s)) = calls s"
  "slot (snd (addEventListener t ty l s)) = slot s"
  "getElement key (snd (addEventListener t ty l s)) = getElement key s"
  by (simp_all add: addEventListener_def split: option.splits)

lemma seq_Returned [simp]: "seq (Returned v, s) k = k s"
  by (simp add: seq_def)

lemma seq_Thrown [simp]: "seq (Thrown e, s) k = (Thrown e, s)"
  by (simp add: seq_def)

lemma seq_cases:
  "seq r k = (case fst r of Thrown e \<Rightarrow> (Thrown e, snd r) | Returned v \<Rightarrow> k (snd r))"
  by (cases r) (simp add: seq_def split: result.splits)

lemma addButtonListeners_frame [simp]:
  "attributes (snd (addButtonListeners s)) = attributes s"
  "eventCallbacks (snd (addButtonListeners s)) = eventCallbacks s"
  "calls (snd (addButtonListeners s)) = calls s"
  "slot (snd (addButtonListeners s)) = slot s"
  "getElement key (snd (addButtonListeners s)) = getElement key s"
  by (simp_all add: addButtonListeners_def Let_def seq_cases split: result.splits)

lemma fillProperties_loop_frame [simp]:
  "attributes (snd (fillProperties_loop ks s)) = attributes s"
  "eventCallbacks (snd (fillProperties_loop ks s)) = eventCallbacks s"
  "calls (snd (fillProperties_loop ks s)) = calls s"
  "slot (snd (fillProperties_loop ks s)) = slot s"
  "getElement key (snd (fillProperties_loop ks s)) = getElement key s"
  by (induction ks arbitrary: s; simp split: option.splits)+

lemma fillProperties_frame [simp]:
  "attributes (snd (fillProperties s)) = attributes s"
  "eventCallbacks (snd (fillProperties s)) = eventCallbacks s"
  "calls (snd (fillProperties s)) = calls s"
  "slot (snd (fillProperties s)) = slot s"
  "getElement key (snd (fillProperties s)) = getElement key s"
  by (simp_all add: fillProperties_def)

section \<open>The attribute keys\<close>

lemma snd_seq_done [simp]: "snd (seq r (\<lambda>s. (Returned v, s))) = snd r"
  by (cases r) (simp add: seq_def split: result.splits)

lemma fst_seq_done:
  "fst (seq r (\<lambda>s. (Returned VUndefined, s))) =
     (case fst r of Returned v \<Rightarrow> Returned VUndefined | Thrown e \<Rightarrow> Thrown e)"
  by (cases r) (simp add: seq_def split: result.splits)

lemma initAd_attributes:
  "attributes (snd (initAd w h m b c (Vars sl vs) s)) =
     AList.update ''desiredBitrate'' b (AList.update ''viewMode'' m
       (AList.update ''height'' h (AList.update ''width'' w (attributes s))))"
  by (simp add: initAd_def Let_def seq_cases split: result.splits)

lemma initAd_eventCallbacks [simp]:
  "eventCallbacks (snd (initAd w h m b c e s)) = eventCallbacks s"
  by (cases e) (simp_all add: initAd_def Let_def seq_cases split: result.splits)

lemma step_keys:
  assumes "map fst (attributes s) =
     [''companions'', ''desiredBitrate'', ''duration'', ''expanded'', ''height'', ''icons'',
      ''linear'', ''remainingTime'', ''skippableState'', ''viewMode'', ''width'', ''volume'']"
  shows "map fst (attributes (snd (step c s))) = map fst (attributes s)"
proof (cases c)
  case (InitAd w h m b cd e)
  then show ?thesis
    using assms by (cases e) (simp_all add: initAd_attributes update_keys, simp add: initAd_def)
qed (simp_all add: assms update_keys handshakeVersion_def startAd_def stopAd_def
      setAdVolume_def getAdVolume_def resizeAd_def pauseAd_def resumeAd_def expandAd_def
      getAdExpanded_def getAdSkippableState_def collapseAd_def skipAd_def subscribe_def
      unsubscribe_def getAdWidth_def getAdHeight_def getAdRemainingTime_def getAdDuration_def
      getAdCompanions_def getAdIcons_def getAdLinear_def Let_def split: jsval.splits)

lemma run_keys:
  assumes "map fst (attributes s) =
     [''companions'', ''desiredBitrate'', ''duration'', ''expanded'', ''height'', ''icons'',
      ''linear'', ''remainingTime'', ''skippableState'', ''viewMode'', ''width'', ''volume'']"
  shows "map fst (attributes (run cs s)) = map fst (attributes s)"
  using assms
proof (induction cs arbitrary: s)
  case Nil
  show ?case by simp
next
  case (Cons c cs)
  have "map fst (attributes (snd (step c s))) = map fst (attributes s)"
    using Cons.prems by (rule step_keys)
  with Cons show ?case by simp
qed

text \<open>
  Claim C9. After any sequence of calls on a freshly constructed unit, the keys of the
  attribute set are the twelve keys of the constructor, in the constructor's order: no
  call adds a key or removes one. The calls that write an attribute write under one of
  these keys, so only the values change.
\<close>

theorem attribute_keys_fixed:
  "map fst (attributes (run cs (new_VpaidAd env))) =
     [''companions'', ''desiredBitrate'', ''duration'', ''expanded'', ''height'', ''icons'',
      ''linear'', ''remainingTime'', ''skippableState'', ''viewMode'', ''width'', ''volume'']"
proof -
  have "map fst (attributes (new_VpaidAd env)) =
     [''companions'', ''desiredBitrate'', ''duration'', ''expanded'', ''height'', ''icons'',
      ''linear'', ''remainingTime'', ''skippableState'', ''viewMode'', ''width'', ''volume'']"
    by (simp add: new_VpaidAd_def)
  then show ?thesis by (simp add: run_keys)
qed

section \<open>The skippable state\<close>

lemma get_attribute_call_eventCallback [simp]:
  "get_attribute k (snd (call_eventCallback n args s)) = get_attribute k s"
  by (simp add: get_attribute_def)

lemma step_skippableState:
  "get_attribute ''skippableState'' (snd (step c s)) = get_attribute ''skippableState'' s"
proof (cases c)
  case (InitAd w h m b cd e)
  then show ?thesis
    by (cases e) (simp_all add: get_attribute_def initAd_attributes update_conv', simp add: initAd_def)
qed (simp_all add: handshakeVersion_def startAd_def stopAd_def
      setAdVolume_def getAdVolume_def resizeAd_def pauseAd_def resumeAd_def expandAd_def
      getAdExpanded_def getAdSkippableState_def collapseAd_def skipAd_def subscribe_def
      unsubscribe_def getAdWidth_def getAdHeight_def getAdRemainingTime_def getAdDuration_def
      getAdCompanions_def getAdIcons_def getAdLinear_def Let_def get_attribute_def update_conv'
      split: jsval.splits)

lemma run_skippableState:
  "get_attribute ''skippableState'' (run cs s) = get_attribute ''skippableState'' s"
  by (induction cs arbitrary: s) (simp_all add: step_skippableState)

lemma skipAd_not_skippable:
  assumes "\<not> truthy (get_attribute ''skippableState'' s)"
  shows "skipAd s = (Returned VUndefined, log ''skipAd'' s)"
  using assms by (simp add: skipAd_def Let_def)

text \<open>
  Claim C10. The constructor sets \<open>skippableState\<close> to \<open>false\<close>, and it is still
  \<open>false\<close> after any sequence of calls, whatever they subscribe; so in every state the
  calls can reach, \<open>skipAd\<close> returns without invoking any host function.
\<close>

theorem skippableState_stays_false:
  "get_attribute ''skippableState'' (new_VpaidAd env) = VBool False \<and>
   get_attribute ''skippableState'' (run cs (new_VpaidAd env)) = VBool False \<and>
   fst (getAdSkippableState (run cs (new_VpaidAd env))) = Returned (VBool False) \<and>
   fst (skipAd (run cs (new_VpaidAd env))) = Returned VUndefined \<and>
   calls (snd (skipAd (run cs (new_VpaidAd env)))) = calls (run cs (new_VpaidAd env))"
proof -
  have init: "get_attribute ''skippableState'' (new_VpaidAd env) = VBool False"
    by (simp add: new_VpaidAd_def get_attribute_def)
  then have reach: "get_attribute ''skippableState'' (run cs (new_VpaidAd env)) = VBool False"
    by (simp add: run_skippableState)
  then have "skipAd (run cs (new_VpaidAd env)) =
      (Returned VUndefined, log ''skipAd'' (run cs (new_VpaidAd env)))"
    by (simp add: skipAd_not_skippable)
  with init reach show ?thesis
    by (simp add: getAdSkippableState_def Let_def)
qed

section \<open>Volume and version\<close>

text \<open>
  Claim C6. Whatever value \<open>setAdVolume\<close> is given, in range or not, and whether or not
  its notification of the host throws, \<open>getAdVolume\<close> then returns that very value:
  nothing clamps it.
\<close>

theorem getAdVolume_after_setAdVolume:
  "fst (getAdVolume (snd (setAdVolume v s))) = Returned v"
  by (simp add: getAdVolume_def setAdVolume_def Let_def)

text \<open>
  Claim C7. \<open>handshakeVersion\<close> returns \<open>"2.0"\<close> for every argument, the empty string
  and unsupported versions included, and changes nothing.
\<close>

theorem handshakeVersion_fixed:
  "fst (handshakeVersion version s) = Returned (VStr ''2.0'') \<and>
   snd (handshakeVersion version s) = s \<and>
   fst (handshakeVersion (VStr []) s) = fst (handshakeVersion version s')"
  by (simp add: handshakeVersion_def)

section \<open>Expanding and collapsing\<close>

text \<open>
  Claim C8. With a host function bound under \<open>"AdExpanded"\<close>, \<open>expandAd\<close> returns
  after invoking it once, with no arguments, and \<open>getAdExpanded\<close> then returns
  \<open>true\<close>; \<open>collapseAd\<close> after that invokes nothing, and \<open>getAdExpanded\<close> returns
  \<open>false\<close>. Neither getter invokes anything.
\<close>

theorem expandAd_then_collapseAd:
  assumes "eventCallbacks s ''AdExpanded'' = Some (Bound f this)"
  shows
    "(let s1 = snd (expandAd s);
          s2 = snd (getAdExpanded s1);
          s3 = snd (collapseAd s2);
          s4 = snd (getAdExpanded s3)
      in fst (expandAd s) = Returned VUndefined \<and>
         calls s1 = calls s @ [\<lparr>callee = f, thisArg = this, arguments = []\<rparr>] \<and>
         fst (getAdExpanded s1) = Returned (VBool True) \<and>
         calls s2 = calls s1 \<and>
         fst (collapseAd s2) = Returned VUndefined \<and>
         calls s3 = calls s1 \<and>
         fst (getAdExpanded s3) = Returned (VBool False) \<and>
         calls s4 = calls s1)"
  using assms
  by (simp add: Let_def expandAd_def getAdExpanded_def collapseAd_def
      has_eventCallback_def call_eventCallback_def get_attribute_def update_conv')

theorem expandAd_then_collapseAd_witness:
  "(let s = snd (subscribe recorder ''AdExpanded'' player (new_VpaidAd blank_page));
        s1 = snd (expandAd s);
        s2 = snd (getAdExpanded s1);
        s3 = snd (collapseAd s2);
        s4 = snd (getAdExpanded s3)
    in eventCallbacks s ''AdExpanded'' = Some (Bound recorder player) \<and>
       calls s = [] \<and>
       fst (expandAd s) = Returned VUndefined \<and>
       calls s1 = [\<lparr>callee = recorder, thisArg = player, arguments = []\<rparr>] \<and>
       fst (getAdExpanded s1) = Returned (VBool True) \<and>
       fst (collapseAd s2) = Returned VUndefined \<and>
       calls s3 = [\<lparr>callee = recorder, thisArg = player, arguments = []\<rparr>] \<and>
       fst (getAdExpanded s3) = Returned (VBool False) \<and>
       calls s4 = [\<lparr>callee = recorder, thisArg = player, arguments = []\<rparr>])"
proof -
  define s where "s = snd (subscribe recorder ''AdExpanded'' player (new_VpaidAd blank_page))"
  have reg: "eventCallbacks s ''AdExpanded'' = Some (Bound recorder player)"
    by (simp add: s_def subscribe_def recorder_def Let_def)
  have none: "calls s = []"
    by (simp add: s_def subscribe_def recorder_def Let_def new_VpaidAd_def blank_page_def)
  show ?thesis
    using expandAd_then_collapseAd [OF reg] reg none
    by (simp add: Let_def s_def [symmetric])
qed

section \<open>How a call ends\<close>

lemma fst_seq:
  "fst (seq r k) = (case fst r of Thrown e \<Rightarrow> Thrown e | Returned v \<Rightarrow> fst (k (snd r)))"
  by (cases r) (simp add: seq_def split: result.splits)

lemma snd_seq:
  "snd (seq r k) = (case fst r of Thrown e \<Rightarrow> snd r | Returned v \<Rightarrow> snd (k (snd r)))"
  by (cases r) (simp add: seq_def split: result.splits)

lemma fst_call_eventCallback:
  "fst (call_eventCallback n args s) =
     (case eventCallbacks s n of
        None \<Rightarrow> Thrown TypeError
      | Some NullEntry \<Rightarrow> Thrown TypeError
      | Some (Bound f this) \<Rightarrow> Returned VUndefined)"
  by (simp add: call_eventCallback_def split: option.splits callback.splits)

lemma getElement_call_eventCallback [simp]:
  "getElement key (snd (call_eventCallback n args s)) = getElement key s"
  by (rule getElement_cong) simp_all

lemma has_eventCallback_call_eventCallback [simp]:
  "has_eventCallback k (snd (call_eventCallback n args s)) = has_eventCallback k s"
  by (simp add: has_eventCallback_def)

lemma getElement_setupScrollListener [simp]:
  "getElement key (setupScrollListener s) = getElement key s"
  by (rule getElement_cong) simp_all

lemma fst_addEventListener:
  "fst (addEventListener t ty l s) =
     (case t of None \<Rightarrow> Thrown TypeError | Some r \<Rightarrow> Returned VUndefined)"
  by (simp add: addEventListener_def split: option.splits)

lemma fst_addButtonListeners:
  "fst (addButtonListeners s) =
     (if getElement ''eventSelect'' s = None then Thrown TypeError
      else if getElement ''triggerEvent'' s = None then Thrown TypeError
      else Returned VUndefined)"
  by (auto simp: addButtonListeners_def Let_def fst_seq fst_addEventListener
      split: result.splits option.splits)

lemma fst_fillProperties_loop:
  "fst (fillProperties_loop ks s) =
     (if list_all (\<lambda>k. getElement k s \<noteq> None) ks then Returned VUndefined
      else Thrown TypeError)"
  by (induction ks arbitrary: s) (auto split: option.splits)

lemma fst_fillProperties:
  "fst (fillProperties s) =
     (if list_all (\<lambda>k. getElement k s \<noteq> None) (map fst (attributes s))
      then Returned VUndefined else Thrown TypeError)"
  by (simp add: fillProperties_def fst_fillProperties_loop)

lemma fst_initAd:
  "fst (initAd w h m b c (Vars sl vs) s) =
     (if getElement ''eventSelect'' s = None then Thrown TypeError
      else if getElement ''triggerEvent'' s = None then Thrown TypeError
      else if \<not> list_all (\<lambda>k. getElement k s \<noteq> None)
                 (map fst (AList.update ''desiredBitrate'' b (AList.update ''viewMode'' m
                    (AList.update ''height'' h (AList.update ''width'' w (attributes s))))))
      then Thrown TypeError
      else (case eventCallbacks s ''AdLoaded'' of
              None \<Rightarrow> Thrown TypeError
            | Some NullEntry \<Rightarrow> Thrown TypeError
            | Some (Bound f this) \<Rightarrow> Returned VUndefined))"
proof -
  have *: "getElement k (s\<lparr>slot := sl, videoSlot := vs\<rparr>) = getElement k s" for k
    by (rule getElement_cong) simp_all
  show ?thesis
    by (auto simp: initAd_def Let_def fst_seq fst_addButtonListeners fst_fillProperties
        fst_call_eventCallback * split: result.splits option.splits callback.splits)
qed

lemma getElement_initAd [simp]:
  "getElement key (snd (initAd w h m b c e s)) = getElement key s"
proof (cases e)
  case Nullish
  then show ?thesis by (simp add: initAd_def)
next
  case (Vars sl vs)
  have *: "getElement k (s\<lparr>slot := sl, videoSlot := vs\<rparr>) = getElement k s" for k
    by (rule getElement_cong) simp_all
  show ?thesis
    by (simp add: Vars initAd_def Let_def snd_seq * split: result.splits)
qed

lemma calls_initAd:
  "calls (snd (initAd w h m b c e s)) =
     (case fst (initAd w h m b c e s) of
        Thrown err \<Rightarrow> calls s
      | Returned v \<Rightarrow>
          (case eventCallbacks s ''AdLoaded'' of
             Some (Bound f this) \<Rightarrow> calls s @ [\<lparr>callee = f, thisArg = this, arguments = []\<rparr>]
           | Some NullEntry \<Rightarrow> calls s
           | None \<Rightarrow> calls s))"
proof (cases e)
  case Nullish
  then show ?thesis by (simp add: initAd_def)
next
  case (Vars sl vs)
  show ?thesis
    by (simp add: Vars initAd_def Let_def snd_seq fst_seq call_eventCallback_calls
        fst_call_eventCallback split: result.splits option.splits callback.splits)
qed

section \<open>The log sink\<close>

lemma lastVpaidEvent_log:
  "lastVpaidEvent (log message s) =
     (case getElement ''lastVpaidEvent'' s of None \<Rightarrow> None | Some r \<Rightarrow> Some message)"
  by (auto simp: lastVpaidEvent_def log_def getElement_def update_element_def element_at_def
      split: option.splits parent_window.splits)

section \<open>States that look alike to the unit\<close>

text \<open>
  A call reads the attributes, the registry and which ids resolve to an element, and
  nothing else of the state; so two states that agree on these end every call the same
  way and agree on them again afterwards.
\<close>

lemma getElement_eventCallbacks_update [simp]:
  "getElement key (s\<lparr>eventCallbacks := m\<rparr>) = getElement key s"
  by (rule getElement_cong) simp_all

lemma getElement_step [simp]: "getElement key (snd (step c s)) = getElement key s"
proof (cases c)
  case (Subscribe f n cx)
  then show ?thesis by (simp add: subscribe_def Let_def split: jsval.splits)
qed (simp_all add: handshakeVersion_def startAd_def stopAd_def
      setAdVolume_def getAdVolume_def resizeAd_def pauseAd_def resumeAd_def expandAd_def
      getAdExpanded_def getAdSkippableState_def collapseAd_def skipAd_def
      unsubscribe_def getAdWidth_def getAdHeight_def getAdRemainingTime_def getAdDuration_def
      getAdCompanions_def getAdIcons_def getAdLinear_def Let_def)

lemma fst_emit [simp]:
  "fst (seq (call_eventCallback n args s) (\<lambda>s2. (Returned VUndefined, s2))) =
     fst (call_eventCallback n args s)"
  by (simp add: fst_seq fst_call_eventCallback split: option.splits callback.splits)

lemma step_agree_fst:
  assumes "attributes s = attributes s'" and "eventCallbacks s = eventCallbacks s'"
    and "\<And>k. getElement k s = getElement k s'"
  shows "fst (step c s) = fst (step c s')"
proof (cases c)
  case (InitAd w h m b cd e)
  then show ?thesis
    by (cases e) (simp_all add: fst_initAd assms, simp_all add: initAd_def)
next
  case (Subscribe f n cx)
  then show ?thesis by (simp add: subscribe_def Let_def split: jsval.splits)
qed (simp_all add: assms handshakeVersion_def startAd_def stopAd_def
        setAdVolume_def getAdVolume_def resizeAd_def pauseAd_def resumeAd_def expandAd_def
        getAdExpanded_def getAdSkippableState_def collapseAd_def skipAd_def
        unsubscribe_def getAdWidth_def getAdHeight_def getAdRemainingTime_def getAdDuration_def
        getAdCompanions_def getAdIcons_def getAdLinear_def Let_def
        fst_call_eventCallback has_eventCallback_def get_attribute_def)

lemma step_agree_attributes:
  assumes "attributes s = attributes s'"
  shows "attributes (snd (step c s)) = attributes (snd (step c s'))"
proof (cases c)
  case (InitAd w h m b cd e)
  then show ?thesis
    by (cases e) (simp_all add: initAd_attributes assms, simp_all add: initAd_def assms)
next
  case (Subscribe f n cx)
  then show ?thesis by (simp add: assms subscribe_def Let_def split: jsval.splits)
qed (simp_all add: assms handshakeVersion_def startAd_def stopAd_def
        setAdVolume_def getAdVolume_def resizeAd_def pauseAd_def resumeAd_def expandAd_def
        getAdExpanded_def getAdSkippableState_def collapseAd_def skipAd_def
        unsubscribe_def getAdWidth_def getAdHeight_def getAdRemainingTime_def getAdDuration_def
        getAdCompanions_def getAdIcons_def getAdLinear_def Let_def)

lemma step_agree_eventCallbacks:
  assumes "eventCallbacks s = eventCallbacks s'"
  shows "eventCallbacks (snd (step c s)) = eventCallbacks (snd (step c s'))"
proof (cases c)
  case (Subscribe f n cx)
  then show ?thesis by (simp add: assms subscribe_def Let_def split: jsval.splits)
qed (simp_all add: assms handshakeVersion_def startAd_def stopAd_def
        setAdVolume_def getAdVolume_def resizeAd_def pauseAd_def resumeAd_def expandAd_def
        getAdExpanded_def getAdSkippableState_def collapseAd_def skipAd_def
        unsubscribe_def getAdWidth_def getAdHeight_def getAdRemainingTime_def getAdDuration_def
        getAdCompanions_def getAdIcons_def getAdLinear_def Let_def)

lemma results_agree:
  assumes "attributes s = attributes s'" and "eventCallbacks s = eventCallbacks s'"
    and "\<And>k. getElement k s = getElement k s'"
  shows "results cs s = results cs s'"
  using assms
proof (induction cs arbitrary: s s')
  case Nil
  show ?case by simp
next
  case (Cons c cs)
  have "fst (step c s) = fst (step c s')"
    using Cons.prems by (rule step_agree_fst)
  moreover have "results cs (snd (step c s)) = results cs (snd (step c s'))"
  proof (rule Cons.IH)
    show "attributes (snd (step c s)) = attributes (snd (step c s'))"
      using Cons.prems(1) by (rule step_agree_attributes)
    show "eventCallbacks (snd (step c s)) = eventCallbacks (snd (step c s'))"
      using Cons.prems(2) by (rule step_agree_eventCallbacks)
    show "getElement k (snd (step c s)) = getElement k (snd (step c s'))" for k
      using Cons.prems(3) by simp
  qed
  ultimately show ?case by simp
qed

lemma results_log [simp]: "results cs (log message s) = results cs s"
  by (rule results_agree) simp_all

section \<open>Skipping\<close>

lemma skipAd_frame [simp]:
  "attributes (snd (skipAd s)) = attributes s"
  "eventCallbacks (snd (skipAd s)) = eventCallbacks s"
  "slot (snd (skipAd s)) = slot s"
  by (simp_all add: skipAd_def Let_def)

lemma skipAd_diagnostic:
  assumes "truthy (get_attribute ''skippableState'' s)" and "eventCallbacks s ''AdSkipped'' = None"
  shows "skipAd s = (Returned VUndefined, log ''Error: Invalid ad skip request.'' (log ''skipAd'' s))"
  using assms by (simp add: skipAd_def Let_def has_eventCallback_def)

lemma skipAd_Bound:
  assumes "eventCallbacks s ''AdSkipped'' = Some (Bound f this)"
  shows "fst (skipAd s) = Returned VUndefined"
    and "calls (snd (skipAd s)) =
      (if truthy (get_attribute ''skippableState'' s)
       then calls s @ [\<lparr>callee = f, thisArg = this, arguments = []\<rparr>] else calls s)"
  using assms
  by (simp_all add: skipAd_def Let_def has_eventCallback_def fst_call_eventCallback
      call_eventCallback_calls)

text \<open>
  What \<open>skipAd\<close> does where the registry holds a function under \<open>"AdSkipped"\<close>
  or no entry at all. With a host function bound under \<open>"AdSkipped"\<close>, \<open>skipAd\<close> invokes it,
  once and with no arguments, exactly when \<open>skippableState\<close> is truthy. When
  \<open>skippableState\<close> is not truthy, \<open>skipAd\<close> returns without invoking anything,
  whatever the registry holds. When it is truthy and the registry has no entry under
  \<open>"AdSkipped"\<close>, \<open>skipAd\<close> returns, invokes nothing, leaves attributes and registry
  as they were, and the log sink, if the page has one, shows the diagnostic message.
  In the last two cases every later sequence of calls ends as it would have ended
  without the \<open>skipAd\<close>.
\<close>

theorem skipAd_gated:
  "(eventCallbacks s ''AdSkipped'' = Some (Bound f this) \<longrightarrow>
      fst (skipAd s) = Returned VUndefined \<and>
      calls (snd (skipAd s)) =
        (if truthy (get_attribute ''skippableState'' s)
         then calls s @ [\<lparr>callee = f, thisArg = this, arguments = []\<rparr>] else calls s)) \<and>
   (\<not> truthy (get_attribute ''skippableState'' s) \<longrightarrow>
      fst (skipAd s) = Returned VUndefined \<and>
      calls (snd (skipAd s)) = calls s \<and>
      results cs (snd (skipAd s)) = results cs s) \<and>
   (truthy (get_attribute ''skippableState'' s) \<and> eventCallbacks s ''AdSkipped'' = None \<longrightarrow>
      fst (skipAd s) = Returned VUndefined \<and>
      calls (snd (skipAd s)) = calls s \<and>
      attributes (snd (skipAd s)) = attributes s \<and>
      eventCallbacks (snd (skipAd s)) = eventCallbacks s \<and>
      lastVpaidEvent (snd (skipAd s)) =
        (case getElement ''lastVpaidEvent'' s of
           None \<Rightarrow> None
         | Some logTextArea \<Rightarrow> Some ''Error: Invalid ad skip request.'') \<and>
      results cs (snd (skipAd s)) = results cs s)"
proof (intro conjI impI)
  assume "eventCallbacks s ''AdSkipped'' = Some (Bound f this)"
  then show "fst (skipAd s) = Returned VUndefined"
    and "calls (snd (skipAd s)) =
      (if truthy (get_attribute ''skippableState'' s)
       then calls s @ [\<lparr>callee = f, thisArg = this, arguments = []\<rparr>] else calls s)"
    by (rule skipAd_Bound)+
next
  assume "\<not> truthy (get_attribute ''skippableState'' s)"
  then have "skipAd s = (Returned VUndefined, log ''skipAd'' s)"
    by (rule skipAd_not_skippable)
  then show "fst (skipAd s) = Returned VUndefined" and "calls (snd (skipAd s)) = calls s"
    and "results cs (snd (skipAd s)) = results cs s"
    by simp_all
next
  assume "truthy (get_attribute ''skippableState'' s) \<and> eventCallbacks s ''AdSkipped'' = None"
  then have *: "skipAd s =
      (Returned VUndefined, log ''Error: Invalid ad skip request.'' (log ''skipAd'' s))"
    by (simp add: skipAd_diagnostic)
  show "fst (skipAd s) = Returned VUndefined" and "calls (snd (skipAd s)) = calls s"
    and "attributes (snd (skipAd s)) = attributes s"
    and "eventCallbacks (snd (skipAd s)) = eventCallbacks s"
    and "results cs (snd (skipAd s)) = results cs s"
    by (simp_all add: *)
  show "lastVpaidEvent (snd (skipAd s)) =
        (case getElement ''lastVpaidEvent'' s of
           None \<Rightarrow> None
         | Some logTextArea \<Rightarrow> Some ''Error: Invalid ad skip request.'')"
    by (simp add: * lastVpaidEvent_log)
qed

lemma control_page_lastVpaidEvent:
  "getElement ''lastVpaidEvent'' (new_VpaidAd control_page) = Some (InDocument, ''lastVpaidEvent'')"
  by (simp add: getElement_def new_VpaidAd_def control_page_def)

theorem skipAd_gated_witness:
  "(let s = set_attribute ''skippableState'' (VBool True)
              (snd (subscribe recorder ''AdSkipped'' player (new_VpaidAd control_page)))
    in eventCallbacks s ''AdSkipped'' = Some (Bound recorder player) \<and>
       truthy (get_attribute ''skippableState'' s) \<and>
       fst (skipAd s) = Returned VUndefined \<and>
       calls (snd (skipAd s)) = [\<lparr>callee = recorder, thisArg = player, arguments = []\<rparr>]) \<and>
   (let s = new_VpaidAd control_page
    in \<not> truthy (get_attribute ''skippableState'' s) \<and>
       fst (skipAd s) = Returned VUndefined \<and>
       calls (snd (skipAd s)) = [] \<and>
       results [PauseAd, GetAdSkippableState] (snd (skipAd s)) =
         [Returned VUndefined, Returned (VBool False)]) \<and>
   (let s = set_attribute ''skippableState'' (VBool True) (new_VpaidAd control_page)
    in truthy (get_attribute ''skippableState'' s) \<and>
       eventCallbacks s ''AdSkipped'' = None \<and>
       fst (skipAd s) = Returned VUndefined \<and>
       calls (snd (skipAd s)) = [] \<and>
       lastVpaidEvent (snd (skipAd s)) = Some ''Error: Invalid ad skip request.'')"
proof -
  let ?s1 = "set_attribute ''skippableState'' (VBool True)
              (snd (subscribe recorder ''AdSkipped'' player (new_VpaidAd control_page)))"
  let ?s2 = "new_VpaidAd control_page"
  let ?s3 = "set_attribute ''skippableState'' (VBool True) (new_VpaidAd control_page)"
  have a1: "eventCallbacks ?s1 ''AdSkipped'' = Some (Bound recorder player)"
    by (simp add: subscribe_def recorder_def Let_def)
  have b1: "truthy (get_attribute ''skippableState'' ?s1)"
    by simp
  have c1: "calls ?s1 = []"
    by (simp add: subscribe_def recorder_def Let_def new_VpaidAd_def control_page_def)
  have a2: "\<not> truthy (get_attribute ''skippableState'' ?s2)"
    by (simp add: new_VpaidAd_def get_attribute_def)
  have c2: "calls ?s2 = []"
    by (simp add: new_VpaidAd_def control_page_def)
  have d2: "results [PauseAd, GetAdSkippableState] ?s2 = [Returned VUndefined, Returned (VBool False)]"
    by (simp add: pauseAd_def getAdSkippableState_def Let_def has_eventCallback_def)
      (simp add: new_VpaidAd_def get_attribute_def)
  have a3: "truthy (get_attribute ''skippableState'' ?s3)"
    by simp
  have b3: "eventCallbacks ?s3 ''AdSkipped'' = None"
    by (simp add: new_VpaidAd_def)
  have c3: "calls ?s3 = []"
    by (simp add: new_VpaidAd_def control_page_def)
  have d3: "getElement ''lastVpaidEvent'' ?s3 = Some (InDocument, ''lastVpaidEvent'')"
    by (simp add: control_page_lastVpaidEvent)
  have w1: "fst (skipAd ?s1) = Returned VUndefined \<and>
      calls (snd (skipAd ?s1)) = [\<lparr>callee = recorder, thisArg = player, arguments = []\<rparr>]"
    using skipAd_gated [of ?s1 recorder player "[]"] a1 b1 c1 by simp
  have w2: "fst (skipAd ?s2) = Returned VUndefined \<and> calls (snd (skipAd ?s2)) = [] \<and>
      results [PauseAd, GetAdSkippableState] (snd (skipAd ?s2)) =
        [Returned VUndefined, Returned (VBool False)]"
    using skipAd_gated [of ?s2 recorder player "[PauseAd, GetAdSkippableState]"] a2 c2 d2
    by simp
  have w3: "fst (skipAd ?s3) = Returned VUndefined \<and> calls (snd (skipAd ?s3)) = [] \<and>
      lastVpaidEvent (snd (skipAd ?s3)) = Some ''Error: Invalid ad skip request.''"
    using skipAd_gated [of ?s3 recorder player "[]"] a3 b3 c3 d3 by simp
  show ?thesis
    unfolding Let_def using a1 b1 w1 a2 w2 a3 b3 w3 by blast
qed

section \<open>Where the unit departs from its contract\<close>

lemma subscribe_VFun:
  "subscribe (VFun f src) n this s =
     (Returned VUndefined,
      (log (''Subscribe '' @ src) s)\<lparr>eventCallbacks :=
         (eventCallbacks s)(n \<mapsto> Bound (VFun f src) this)\<rparr>)"
  by (simp add: subscribe_def Let_def)

lemma calls_eventCallbacks_update [simp]:
  "calls (s\<lparr>eventCallbacks := m\<rparr>) = calls s"
  by simp

lemma has_eventCallback_update [simp]:
  "has_eventCallback k (s\<lparr>eventCallbacks := m\<rparr>) = (m k \<noteq> None)"
  by (simp add: has_eventCallback_def)

lemma log_eventCallbacks_update:
  "log message (s\<lparr>eventCallbacks := m\<rparr>) = (log message s)\<lparr>eventCallbacks := m\<rparr>"
  by (simp add: log_def getElement_def update_element_def
      split: option.splits parent_window.splits)

lemma new_VpaidAd_fields [simp]:
  "calls (new_VpaidAd env) = calls env"
  "eventCallbacks (new_VpaidAd env) = Map.empty"
  "document (new_VpaidAd env) = document env"
  "parent (new_VpaidAd env) = parent env"
  by (simp_all add: new_VpaidAd_def)

text \<open>
  Claim C1, at its failing input. On a fresh unit, whatever the page and the host
  function: after \<open>subscribe\<close> under \<open>"AdStarted"\<close> the function is in the registry, and
  \<open>startAd\<close> returns without invoking it, because it looks for an entry under
  \<open>"AdStart"\<close>. The same holds for \<open>"AdStopped"\<close> and \<open>stopAd\<close>, which looks under
  \<open>"AdStop"\<close>.
\<close>

theorem startAd_stopAd_miss_subscriber:
  "(let s = snd (subscribe (VFun f src) ''AdStarted'' this (new_VpaidAd env))
    in eventCallbacks s ''AdStarted'' = Some (Bound (VFun f src) this) \<and>
       fst (startAd s) = Returned VUndefined \<and>
       calls (snd (startAd s)) = calls env) \<and>
   (let s = snd (subscribe (VFun f src) ''AdStopped'' this (new_VpaidAd env))
    in eventCallbacks s ''AdStopped'' = Some (Bound (VFun f src) this) \<and>
       fst (stopAd s) = Returned VUndefined \<and>
       calls (snd (stopAd s)) = calls env)"
  by (simp add: Let_def subscribe_VFun startAd_def stopAd_def log_eventCallbacks_update)

text \<open>
  Claim C2, at its failing input. In any state, after \<open>subscribe\<close> and then
  \<open>unsubscribe\<close> under \<open>"AdPaused"\<close>, \<open>pauseAd\<close> throws: \<open>unsubscribe\<close> leaves the key
  in the registry with \<open>null\<close> under it, the \<^verbatim>\<open>in\<close> test of \<open>pauseAd\<close> finds the key,
  and \<open>null\<close> is called. The host function is not invoked. \<open>resumeAd\<close> and \<open>expandAd\<close>
  do the same under their events.
\<close>

theorem unsubscribe_then_emit_throws:
  "(let s1 = snd (unsubscribe ''AdPaused'' (snd (subscribe (VFun f src) ''AdPaused'' this s)))
    in fst (pauseAd s1) = Thrown TypeError \<and> calls (snd (pauseAd s1)) = calls s) \<and>
   (let s1 = snd (unsubscribe ''AdResumed'' (snd (subscribe (VFun f src) ''AdResumed'' this s)))
    in fst (resumeAd s1) = Thrown TypeError \<and> calls (snd (resumeAd s1)) = calls s) \<and>
   (let s1 = snd (unsubscribe ''AdExpanded'' (snd (subscribe (VFun f src) ''AdExpanded'' this s)))
    in fst (expandAd s1) = Thrown TypeError \<and> calls (snd (expandAd s1)) = calls s)"
  by (simp add: Let_def subscribe_VFun unsubscribe_def pauseAd_def resumeAd_def expandAd_def
      log_eventCallbacks_update fst_call_eventCallback call_eventCallback_calls)

text \<open>
  Claim C3, at its failing input. \<open>initAd\<close> on a freshly constructed unit throws,
  whatever the arguments and the page: where nothing stops it earlier, it calls the
  entry under \<open>"AdLoaded"\<close>, and there is none. On the page that holds every element
  \<open>initAd\<close> looks up, the call therefore throws at that point; the unit can still be
  called afterwards.
\<close>

theorem initAd_without_subscriber_throws:
  "fst (initAd w h m b c e (new_VpaidAd env)) = Thrown TypeError \<and>
   results
     [InitAd (VNum 300) (VNum 250) (VStr ''normal'') (VNum 256) no_creativeData
        (Vars (Prim VNull) (Prim VNull)),
      PauseAd, GetAdWidth]
     (new_VpaidAd control_page) =
   [Thrown TypeError, Returned VUndefined, Returned (VNum 300)]"
proof -
  have p: "fst (initAd w h m b c e (new_VpaidAd env)) = Thrown TypeError" for w h m b c e env
    by (cases e) (simp_all add: fst_initAd, simp add: initAd_def)
  show ?thesis
    by (simp add: p pauseAd_def Let_def has_eventCallback_def getAdWidth_def get_attribute_def
        initAd_attributes update_conv')
qed

text \<open>
  Claim C4, at its failing input. On a page without the controls, here the blank page,
  with a host function subscribed under \<open>"AdLoaded"\<close>: \<open>initAd\<close> throws when it adds
  its listener to the element \<open>eventSelect\<close>, which is not there, and the host
  function is never invoked. The attributes were assigned before, so the getters show
  the new width and height.
\<close>

theorem initAd_without_controls_throws:
  "(let s = snd (subscribe recorder ''AdLoaded'' player (new_VpaidAd blank_page));
        r = initAd (VNum 300) (VNum 250) (VStr ''normal'') (VNum 256) no_creativeData
              (Vars (Prim VNull) (Prim VNull)) s
    in eventCallbacks s ''AdLoaded'' = Some (Bound recorder player) \<and>
       fst (addButtonListeners (renderSlot s)) = Thrown TypeError \<and>
       fst r = Thrown TypeError \<and>
       calls (snd r) = [] \<and>
       fst (getAdWidth (snd r)) = Returned (VNum 300) \<and>
       fst (getAdHeight (snd r)) = Returned (VNum 250))"
proof -
  let ?s = "snd (subscribe recorder ''AdLoaded'' player (new_VpaidAd blank_page))"
  have "getElement ''eventSelect'' (new_VpaidAd blank_page) = None"
    by (simp add: getElement_def blank_page_def)
  then have g: "getElement ''eventSelect'' ?s = None"
    using getElement_step [of "''eventSelect''" "Subscribe recorder ''AdLoaded'' player"]
    by simp
  have r: "eventCallbacks ?s ''AdLoaded'' = Some (Bound recorder player)"
    by (simp add: recorder_def subscribe_VFun)
  have c: "calls ?s = []"
    by (simp add: recorder_def subscribe_VFun blank_page_def)
  have t: "fst (initAd (VNum 300) (VNum 250) (VStr ''normal'') (VNum 256) no_creativeData
              (Vars (Prim VNull) (Prim VNull)) ?s) = Thrown TypeError"
    by (simp add: fst_initAd g)
  show ?thesis
    unfolding Let_def
    by (simp add: r t g c calls_initAd fst_addButtonListeners getAdWidth_def getAdHeight_def
        get_attribute_def initAd_attributes update_conv')
qed



section \<open>What the unit does when its surroundings are in place\<close>

lemma getElement_subscribe [simp]:
  "getElement key (snd (subscribe f n this s)) = getElement key s"
  using getElement_step [of key "Subscribe f n this" s] by simp

text \<open>
  When \<open>environmentVars\<close> is an object, \<open>initAd\<close> stores its first four arguments
  under \<open>width\<close>, \<open>height\<close>, \<open>viewMode\<close> and \<open>desiredBitrate\<close>, whether it then
  returns or throws, and the getters return them.
\<close>

theorem initAd_stores_arguments:
  "(let s1 = snd (initAd w h m b c (Vars sl vs) s)
    in fst (getAdWidth s1) = Returned w \<and>
       fst (getAdHeight s1) = Returned h \<and>
       get_attribute ''viewMode'' s1 = m \<and>
       get_attribute ''desiredBitrate'' s1 = b)"
  by (simp add: Let_def getAdWidth_def getAdHeight_def get_attribute_def initAd_attributes
      update_conv')

text \<open>
  When moreover a host function is bound under \<open>"AdLoaded"\<close> and the page holds the
  two controls and one element per attribute key, \<open>initAd\<close> returns after invoking
  that function exactly once, with no arguments.
\<close>

theorem initAd_emits_AdLoaded:
  assumes "eventCallbacks s ''AdLoaded'' = Some (Bound f this)"
    and "list_all (\<lambda>k. getElement k s \<noteq> None)
           [''eventSelect'', ''triggerEvent'',
            ''companions'', ''desiredBitrate'', ''duration'', ''expanded'', ''height'',
            ''icons'', ''linear'', ''remainingTime'', ''skippableState'', ''viewMode'',
            ''width'', ''volume'']"
    and "map fst (attributes s) =
           [''companions'', ''desiredBitrate'', ''duration'', ''expanded'', ''height'',
            ''icons'', ''linear'', ''remainingTime'', ''skippableState'', ''viewMode'',
            ''width'', ''volume'']"
  shows "fst (initAd w h m b c (Vars sl vs) s) = Returned VUndefined \<and>
         calls (snd (initAd w h m b c (Vars sl vs) s)) =
           calls s @ [\<lparr>callee = f, thisArg = this, arguments = []\<rparr>]"
proof -
  have r: "fst (initAd w h m b c (Vars sl vs) s) = Returned VUndefined"
    using assms by (simp add: fst_initAd update_keys)
  then show ?thesis
    using assms(1) by (simp add: calls_initAd)
qed

lemma control_page_elements:
  "list_all (\<lambda>k. getElement k (new_VpaidAd control_page) \<noteq> None)
     [''eventSelect'', ''triggerEvent'',
      ''companions'', ''desiredBitrate'', ''duration'', ''expanded'', ''height'',
      ''icons'', ''linear'', ''remainingTime'', ''skippableState'', ''viewMode'',
      ''width'', ''volume'']"
  by (simp add: getElement_def control_page_def)

theorem initAd_emits_AdLoaded_witness:
  "(let s = snd (subscribe recorder ''AdLoaded'' player (new_VpaidAd control_page));
        r = initAd (VNum 300) (VNum 250) (VStr ''normal'') (VNum 256) no_creativeData
              (Vars (Prim VNull) (Prim VNull)) s
    in fst r = Returned VUndefined \<and>
       calls (snd r) = [\<lparr>callee = recorder, thisArg = player, arguments = []\<rparr>] \<and>
       fst (getAdWidth (snd r)) = Returned (VNum 300) \<and>
       fst (getAdHeight (snd r)) = Returned (VNum 250))"
proof -
  let ?s = "snd (subscribe recorder ''AdLoaded'' player (new_VpaidAd control_page))"
  have a: "eventCallbacks ?s ''AdLoaded'' = Some (Bound recorder player)"
    by (simp add: recorder_def subscribe_VFun)
  have b: "list_all (\<lambda>k. getElement k ?s \<noteq> None)
     [''eventSelect'', ''triggerEvent'',
      ''companions'', ''desiredBitrate'', ''duration'', ''expanded'', ''height'',
      ''icons'', ''linear'', ''remainingTime'', ''skippableState'', ''viewMode'',
      ''width'', ''volume'']"
    using control_page_elements by simp
  have c: "map fst (attributes ?s) =
           [''companions'', ''desiredBitrate'', ''duration'', ''expanded'', ''height'',
            ''icons'', ''linear'', ''remainingTime'', ''skippableState'', ''viewMode'',
            ''width'', ''volume'']"
    by (simp add: recorder_def subscribe_VFun new_VpaidAd_def)
  have d: "calls ?s = []"
    by (simp add: recorder_def subscribe_VFun control_page_def)
  show ?thesis
    unfolding Let_def
    using initAd_emits_AdLoaded [OF a b c, of "VNum 300" "VNum 250" "VStr ''normal''" "VNum 256"
        no_creativeData "Prim VNull" "Prim VNull"] d
    by (simp add: getAdWidth_def getAdHeight_def get_attribute_def initAd_attributes
        update_conv')
qed

text \<open>
  \<open>pauseAd\<close>, \<open>resumeAd\<close>, \<open>setAdVolume\<close> and \<open>resizeAd\<close> look for, and call, the
  entry under one and the same name: with a host function bound under it, each
  returns after invoking that function exactly once, with no arguments.
\<close>

theorem emitters_invoke_once:
  "(eventCallbacks s ''AdPaused'' = Some (Bound f this) \<longrightarrow>
      fst (pauseAd s) = Returned VUndefined \<and>
      calls (snd (pauseAd s)) = calls s @ [\<lparr>callee = f, thisArg = this, arguments = []\<rparr>]) \<and>
   (eventCallbacks s ''AdResumed'' = Some (Bound f this) \<longrightarrow>
      fst (resumeAd s) = Returned VUndefined \<and>
      calls (snd (resumeAd s)) = calls s @ [\<lparr>callee = f, thisArg = this, arguments = []\<rparr>]) \<and>
   (eventCallbacks s ''AdVolumeChange'' = Some (Bound f this) \<longrightarrow>
      fst (setAdVolume v s) = Returned VUndefined \<and>
      calls (snd (setAdVolume v s)) =
        calls s @ [\<lparr>callee = f, thisArg = this, arguments = []\<rparr>]) \<and>
   (eventCallbacks s ''AdSizeChange'' = Some (Bound f this) \<longrightarrow>
      fst (resizeAd w h m s) = Returned VUndefined \<and>
      calls (snd (resizeAd w h m s)) =
        calls s @ [\<lparr>callee = f, thisArg = this, arguments = []\<rparr>])"
  by (simp add: pauseAd_def resumeAd_def setAdVolume_def resizeAd_def Let_def
      has_eventCallback_def fst_call_eventCallback call_eventCallback_calls)

theorem emitters_invoke_once_witness:
  "(let s = snd (subscribe recorder ''AdPaused'' player (new_VpaidAd blank_page))
    in eventCallbacks s ''AdPaused'' = Some (Bound recorder player) \<and>
       fst (pauseAd s) = Returned VUndefined \<and>
       calls (snd (pauseAd s)) = [\<lparr>callee = recorder, thisArg = player, arguments = []\<rparr>]) \<and>
   (let s = snd (subscribe recorder ''AdResumed'' player (new_VpaidAd blank_page))
    in eventCallbacks s ''AdResumed'' = Some (Bound recorder player) \<and>
       fst (resumeAd s) = Returned VUndefined \<and>
       calls (snd (resumeAd s)) = [\<lparr>callee = recorder, thisArg = player, arguments = []\<rparr>]) \<and>
   (let s = snd (subscribe recorder ''AdVolumeChange'' player (new_VpaidAd blank_page))
    in eventCallbacks s ''AdVolumeChange'' = Some (Bound recorder player) \<and>
       fst (setAdVolume (VNum 80) s) = Returned VUndefined \<and>
       calls (snd (setAdVolume (VNum 80) s)) =
         [\<lparr>callee = recorder, thisArg = player, arguments = []\<rparr>]) \<and>
   (let s = snd (subscribe recorder ''AdSizeChange'' player (new_VpaidAd blank_page))
    in eventCallbacks s ''AdSizeChange'' = Some (Bound recorder player) \<and>
       fst (resizeAd (VNum 640) (VNum 480) (VStr ''fullscreen'') s) = Returned VUndefined \<and>
       calls (snd (resizeAd (VNum 640) (VNum 480) (VStr ''fullscreen'') s)) =
         [\<lparr>callee = recorder, thisArg = player, arguments = []\<rparr>])"
proof -
  have a: "eventCallbacks (snd (subscribe recorder n player (new_VpaidAd blank_page))) n =
      Some (Bound recorder player)" for n
    by (simp add: recorder_def subscribe_VFun)
  have c: "calls (snd (subscribe recorder n player (new_VpaidAd blank_page))) = []" for n
    by (simp add: recorder_def subscribe_VFun blank_page_def)
  show ?thesis
    unfolding Let_def
    using
      emitters_invoke_once [of "snd (subscribe recorder ''AdPaused'' player (new_VpaidAd blank_page))"
        recorder player]
      emitters_invoke_once [of "snd (subscribe recorder ''AdResumed'' player (new_VpaidAd blank_page))"
        recorder player]
      emitters_invoke_once [of "snd (subscribe recorder ''AdVolumeChange'' player (new_VpaidAd blank_page))"
        recorder player "VNum 80"]
      emitters_invoke_once [of "snd (subscribe recorder ''AdSizeChange'' player (new_VpaidAd blank_page))"
        recorder player _ "VNum 640" "VNum 480" "VStr ''fullscreen''"]
    by (simp add: a c)
qed

text \<open>
  What \<open>startAd\<close> does in any state: it looks for an entry under \<open>"AdStart"\<close>, and
  only when there is one it calls the entry under \<open>"AdStarted"\<close>.
\<close>

theorem startAd_lookup:
  "fst (startAd s) =
     (if eventCallbacks s ''AdStart'' = None then Returned VUndefined
      else (case eventCallbacks s ''AdStarted'' of
              None \<Rightarrow> Thrown TypeError
            | Some NullEntry \<Rightarrow> Thrown TypeError
            | Some (Bound f this) \<Rightarrow> Returned VUndefined)) \<and>
   calls (snd (startAd s)) =
     (if eventCallbacks s ''AdStart'' = None then calls s
      else (case eventCallbacks s ''AdStarted'' of
              None \<Rightarrow> calls s
            | Some NullEntry \<Rightarrow> calls s
            | Some (Bound f this) \<Rightarrow>
                calls s @ [\<lparr>callee = f, thisArg = this, arguments = []\<rparr>]))"
  by (simp add: startAd_def Let_def has_eventCallback_def fst_call_eventCallback
      call_eventCallback_calls split: option.splits callback.splits)

end
